theory Spec2Isabelle
  imports Complex_Main "HOL-Library.AList"
begin

section \<open>Advanced quantization for the MobileNet accelerator (r09_advanced_quantization.py)\<close>

text \<open>
  The development embeds the quantization engine of \<^verbatim>\<open>r09_advanced_quantization.py\<close>:
  the layer-wise sensitivity analyser, the clustering quantizer, the logarithmic
  activation quantizer and the mixed-precision configuration builder.

  Conventions of the embedding.
  \<^item> The floating-point arithmetic of the weight and activation quantizers is idealised
    to exact arithmetic on \<open>real\<close>; the final \<^verbatim>\<open>astype(np.float32)\<close> of the source is
    therefore the identity here. The one floating-point value the code can produce that
    no real stands for, the not-a-number of \<open>0 / 0\<close>, is kept as a constructor of its own.
  \<^item> The accuracies of the sensitivity sweep and the threshold they are compared with
    are not idealised: the choice of the bit width depends on their last bit, so they
    are the binary64 values the source computes.
  \<^item> A Python exception is a value of \<open>error\<close>; a function that can raise returns
    \<open>error + 'a\<close> with \<open>Inl\<close> the exception.
  \<^item> Mutation of the model and of the analyser object is explicit state passing.
\<close>

subsection \<open>Data model\<close>

datatype error =
    ValueError      \<comment> \<open>numpy and Keras: reduction over an empty array, unknown layer, bad reshape\<close>
  | KeyError        \<comment> \<open>a dictionary read of a missing key\<close>
  | PredictError    \<comment> \<open>anything raised by the forward pass of the model\<close>
  | ClusterError    \<comment> \<open>anything raised by the clustering library\<close>
  | OverflowError   \<comment> \<open>\<^verbatim>\<open>int\<close> of an infinite float\<close>
  | InvalidClusterCount  \<comment> \<open>the clustering is asked for fewer than one cluster\<close>
  | EmptyTensor          \<comment> \<open>the clustering is given an array without elements\<close>

text \<open>
  A numpy array: its shape and its elements in row-major order. \<open>NaNTensor\<close> is the
  array of the given shape all of whose elements are not-a-number.
\<close>

datatype tensor =
    Tensor (shape: "nat list") (data: "real list")
  | NaNTensor (shape: "nat list")

text \<open>\<^verbatim>\<open>w.size\<close>: the number of elements.\<close>

fun tsize :: "tensor \<Rightarrow> nat" where
  "tsize (Tensor s d) = length d"
| "tsize (NaNTensor s) = prod_list s"

text \<open>\<^verbatim>\<open>2 ** bits\<close> for a Python integer: an integer for \<open>bits \<ge> 0\<close>, the float
  \<open>1 / 2 ** (-bits)\<close> otherwise.\<close>

definition pow2 :: "int \<Rightarrow> real" where
  "pow2 b = (if 0 \<le> b then 2 ^ nat b else 1 / 2 ^ nat (- b))"

text \<open>\<^verbatim>\<open>np.round\<close>: round to the nearest integer, a tie to the even neighbour.\<close>

definition np_round :: "real \<Rightarrow> int" where
  "np_round x =
     (let f = \<lfloor>x\<rfloor>; d = x - of_int f
      in if d < 1/2 then f
         else if 1/2 < d then f + 1
         else if even f then f else f + 1)"

text \<open>
  \<^verbatim>\<open>astype(np.int32)\<close> of a float holding an integer: the identity inside the range of
  a 32-bit signed integer; outside it the conversion of the x86-64 build yields the
  smallest 32-bit integer.
\<close>

definition astype_int32 :: "int \<Rightarrow> int" where
  "astype_int32 i = (if - (2 ^ 31) \<le> i \<and> i < 2 ^ 31 then i else - (2 ^ 31))"

text \<open>\<^verbatim>\<open>w.min()\<close> and \<^verbatim>\<open>w.max()\<close> on a non-empty sequence.\<close>

fun list_min :: "real list \<Rightarrow> real" where
  "list_min [] = 0"
| "list_min [x] = x"
| "list_min (x # y # ys) = min x (list_min (y # ys))"

fun list_max :: "real list \<Rightarrow> real" where
  "list_max [] = 0"
| "list_max [x] = x"
| "list_max (x # y # ys) = max x (list_max (y # ys))"

subsection \<open>The uniform affine quantizer (\<^verbatim>\<open>_quantize_weights\<close>)\<close>

text \<open>The constant \<^verbatim>\<open>1e-8\<close>.\<close>

definition eps :: real where
  "eps = 1 / 10 ^ 8"

text \<open>\<^verbatim>\<open>scale = (2 ** bits - 1) / (w_max - w_min + 1e-8)\<close>\<close>

definition q_scale :: "int \<Rightarrow> real list \<Rightarrow> real" where
  "q_scale bits d = (pow2 bits - 1) / (list_max d - list_min d + eps)"

text \<open>
  \<^verbatim>\<open>w_quant = np.round((w - w_min) * scale).astype(np.int32)\<close>. The source forms
  the product in binary32; here it is the exact product. The two give the same codes
  except where the exact product lies within a binary32 rounding error of a tie, and, for
  wide codes, at the top of the range: from 25 bits on the source's product for the
  largest element can round to \<open>2 ^ bits\<close>, which at 31 bits no longer fits the cast.
  The statement below about the codes of arbitrary arrays (the comparison of the errors
  at two widths) is therefore made for exact arithmetic and for at most 16 bits, the
  widest code the sweep of \<^verbatim>\<open>analyze_layer\<close> uses by default.
\<close>

definition w_quant :: "int \<Rightarrow> real list \<Rightarrow> int list" where
  "w_quant bits d =
     map (\<lambda>x. astype_int32 (np_round ((x - list_min d) * q_scale bits d))) d"

text \<open>\<^verbatim>\<open>w_dequant = (w_quant / scale + w_min).astype(np.float32)\<close>, for a scale that is
  not zero.\<close>

definition w_dequant :: "int \<Rightarrow> real list \<Rightarrow> real list" where
  "w_dequant bits d =
     map (\<lambda>c. of_int c / q_scale bits d + list_min d) (w_quant bits d)"

text \<open>
  The body of the loop of \<^verbatim>\<open>_quantize_weights\<close> for one array \<open>w\<close>.
  \<^item> An array with \<^verbatim>\<open>len(w.shape) == 0\<close> is appended as it is.
  \<^item> \<^verbatim>\<open>w.min()\<close> of an array without elements raises \<^verbatim>\<open>ValueError\<close>.
  \<^item> A not-a-number array stays one (its minimum is not a number).
  \<^item> With \<open>scale = 0\<close> (that is \<open>bits = 0\<close>) every code is \<open>0\<close> and numpy's
    \<open>0 / 0.0\<close> is not-a-number, with a warning and no exception.
\<close>

fun quantize_tensor :: "int \<Rightarrow> tensor \<Rightarrow> error + tensor" where
  "quantize_tensor bits (Tensor s d) =
     (if length s = 0 then Inr (Tensor s d)
      else if d = [] then Inl ValueError
      else if q_scale bits d = 0 then Inr (NaNTensor s)
      else Inr (Tensor s (w_dequant bits d)))"
| "quantize_tensor bits (NaNTensor s) =
     (if length s = 0 then Inr (NaNTensor s)
      else if prod_list s = 0 then Inl ValueError
      else Inr (NaNTensor s))"

text \<open>\<^verbatim>\<open>_quantize_weights(weights, bits)\<close>: the loop over the arrays of a layer; the
  first exception ends it.\<close>

fun quantize_weights :: "tensor list \<Rightarrow> int \<Rightarrow> error + tensor list" where
  "quantize_weights [] bits = Inr []"
| "quantize_weights (w # ws) bits =
     (case quantize_tensor bits w of
        Inl e \<Rightarrow> Inl e
      | Inr q \<Rightarrow>
          (case quantize_weights ws bits of
             Inl e \<Rightarrow> Inl e
           | Inr qs \<Rightarrow> Inr (q # qs)))"


subsection \<open>The sensitivity analyser (\<^verbatim>\<open>LayerSensitivityAnalyzer\<close>)\<close>

text \<open>
  A Python dictionary is an association list in insertion order with distinct keys:
  \<open>map_of\<close> reads it and \<open>AList.update\<close> writes it (an existing key keeps its place,
  a new key goes to the end).

  The Keras model is the list of its layers in declaration order, each a name with its
  weight arrays; \<^verbatim>\<open>get_layer\<close> and \<^verbatim>\<open>get_weights\<close> read it (the arrays are copies)
  and \<^verbatim>\<open>set_weights\<close> replaces the arrays of one layer. \<^verbatim>\<open>_quantize_weights\<close>
  keeps every shape, so \<^verbatim>\<open>set_weights\<close> has no shape mismatch to raise here.
\<close>

type_synonym model = "(string \<times> tensor list) list"

text \<open>
  The accuracies and the threshold of the analyser are binary64 values, and the choice
  of the optimal bit width compares them; so this one rounding is modelled: the nearest
  binary64 value of a real, a tie to the even significand, with the subnormal range
  (values beyond the largest binary64 value do not occur here: accuracies lie in
  \<open>[0, 1]\<close>).
\<close>

definition binary64 :: "real \<Rightarrow> real" where
  "binary64 x =
     (if x = 0 then 0
      else (let e = max \<lfloor>log 2 \<bar>x\<bar>\<rfloor> (- 1022); ulp = 2 powi (e - 52)
            in sgn x * (of_int (np_round (\<bar>x\<bar> / ulp)) * ulp)))"

text \<open>The literal \<^verbatim>\<open>0.99\<close> of \<^verbatim>\<open>accuracy_threshold = 0.99\<close>: a binary64 value.\<close>

definition accuracy_threshold :: real where
  "accuracy_threshold = binary64 (99 / 100)"

text \<open>
  \<^verbatim>\<open>_evaluate_accuracy\<close>: the forward pass over the fixed, non-empty test set and the
  comparison of the predicted with the true labels, a function of the weights now
  installed in the model. The forward pass is an external collaborator, so it is a
  parameter: it gives the fraction of matching labels as an exact number, or it raises.
  \<^verbatim>\<open>np.mean\<close> returns that fraction rounded to binary64.
\<close>

type_synonym evaluator = "model \<Rightarrow> error + real"

record layer_info =
  optimal_bits :: int
  sensitivity_curve :: "(int \<times> real) list"

record analyzer =
  model :: model
  layer_names :: "string list"
  sensitivity_map :: "(string \<times> layer_info) list"

text \<open>\<^verbatim>\<open>p in s\<close> for strings: \<open>p\<close> occurs in \<open>s\<close> as a contiguous substring.\<close>

fun starts_with :: "string \<Rightarrow> string \<Rightarrow> bool" where
  "starts_with [] s = True"
| "starts_with (p # ps) [] = False"
| "starts_with (p # ps) (c # cs) = (p = c \<and> starts_with ps cs)"

fun contains :: "string \<Rightarrow> string \<Rightarrow> bool" where
  "contains p [] = starts_with p []"
| "contains p (c # cs) = (starts_with p (c # cs) \<or> contains p cs)"


text \<open>
  The first loop of \<^verbatim>\<open>analyze_layer\<close> over the remaining candidate bit widths:
  quantize the snapshot, install the result, evaluate, record. An exception of the
  quantizer or of the evaluation leaves the loop and the function at once; the model is
  returned as it is at that moment.
\<close>

fun sweep :: "evaluator \<Rightarrow> model \<Rightarrow> string \<Rightarrow> tensor list \<Rightarrow> (int \<times> real) list \<Rightarrow> int list
    \<Rightarrow> model \<times> (error + (int \<times> real) list)" where
  "sweep ev m name original curve [] = (m, Inr curve)"
| "sweep ev m name original curve (bits # rest) =
     (case quantize_weights original bits of
        Inl e \<Rightarrow> (m, Inl e)
      | Inr quantized \<Rightarrow>
          (let m' = AList.update name quantized m
           in case ev m' of
                Inl e \<Rightarrow> (m', Inl e)
              | Inr fraction \<Rightarrow>
                  (let accuracy = binary64 fraction
                   in sweep ev m' name original (AList.update bits accuracy curve) rest)))"

text \<open>The second loop of \<^verbatim>\<open>analyze_layer\<close>: the first candidate whose accuracy reaches
  the threshold, the default when the loop ends without a \<^verbatim>\<open>break\<close>.\<close>

fun select_bits :: "(int \<times> real) list \<Rightarrow> real \<Rightarrow> int \<Rightarrow> int list \<Rightarrow> error + int" where
  "select_bits curve threshold dflt [] = Inr dflt"
| "select_bits curve threshold dflt (bits # rest) =
     (case map_of curve bits of
        None \<Rightarrow> Inl KeyError
      | Some a \<Rightarrow> if threshold \<le> a then Inr bits else select_bits curve threshold dflt rest)"

text \<open>
  \<^verbatim>\<open>analyze_layer(layer_name, bit_range)\<close>. \<^verbatim>\<open>range(lo, hi + 1)\<close> is \<open>[lo..hi]\<close>.
  The result is the analyser after the call, with the model it holds, and either the
  exception raised or the pair returned. The threshold
  \<^verbatim>\<open>baseline_accuracy * accuracy_threshold\<close> is a binary64 product.
\<close>

definition analyze_layer :: "evaluator \<Rightarrow> analyzer \<Rightarrow> string \<Rightarrow> int \<times> int
    \<Rightarrow> analyzer \<times> (error + int \<times> (int \<times> real) list)" where
  "analyze_layer ev a layer_name bit_range =
     (case map_of (model a) layer_name of
        None \<Rightarrow> (a, Inl ValueError)
      | Some original_weights \<Rightarrow>
          (case sweep ev (model a) layer_name original_weights []
                  [fst bit_range .. snd bit_range] of
             (m1, Inl e) \<Rightarrow> (a\<lparr>model := m1\<rparr>, Inl e)
           | (m1, Inr curve) \<Rightarrow>
               (let a2 = a\<lparr>model := AList.update layer_name original_weights m1\<rparr>
                in case map_of curve (snd bit_range) of
                     None \<Rightarrow> (a2, Inl KeyError)
                   | Some baseline_accuracy \<Rightarrow>
                       (case select_bits curve (binary64 (baseline_accuracy * accuracy_threshold))
                               (snd bit_range) [fst bit_range .. snd bit_range] of
                          Inl e \<Rightarrow> (a2, Inl e)
                        | Inr optimal \<Rightarrow>
                            (a2\<lparr>sensitivity_map :=
                                  AList.update layer_name
                                    \<lparr>optimal_bits = optimal, sensitivity_curve = curve\<rparr>
                                    (sensitivity_map a2)\<rparr>,
                             Inr (optimal, curve))))))"



subsection \<open>The clustering quantizer (\<^verbatim>\<open>WeightClusteringQuantizer\<close>)\<close>

text \<open>
  \<^verbatim>\<open>KMeans(n_clusters=k, random_state=42, n_init=10)\<close>, its \<^verbatim>\<open>fit_predict\<close> on the
  column of samples and its \<^verbatim>\<open>cluster_centers_\<close> belong to a library outside the
  repository, so the clustering is a parameter: from the number of clusters and the
  \<open>n \<times> 1\<close> array of samples it gives the label of each sample and the centroids, or it
  raises.
\<close>

type_synonym kmeans = "int \<Rightarrow> tensor \<Rightarrow> error + (int list \<times> real list)"

text \<open>
  Modelled from the spec: the validation of the inputs of the clustering. The module
  has no check of its own and the library routine that rejects these inputs is not in
  the repository; the specification gives the two rejections: the call "fails with
  \<^verbatim>\<open>InvalidClusterCount\<close> if k < 1; fails with \<^verbatim>\<open>EmptyTensor\<close> if the tensor has zero
  elements", both "checked before any computation starts". \<open>validated_kmeans core\<close> is
  the clustering routine that makes the two checks in this order and otherwise computes
  what \<open>core\<close> computes.
\<close>

definition validated_kmeans :: "kmeans \<Rightarrow> kmeans" where
  "validated_kmeans core k samples =
     (if k < 1 then Inl InvalidClusterCount
      else if tsize samples = 0 then Inl EmptyTensor
      else core k samples)"

text \<open>An index array: its shape and its labels in row-major order.\<close>

type_synonym index_tensor = "nat list \<times> int list"

record clustering_quantizer =
  num_clusters :: int
  codebooks :: "(string \<times> real list) list"
  indices :: "(string \<times> index_tensor) list"

text \<open>What \<^verbatim>\<open>quantize_layer_weights\<close> prints after the clustering.\<close>

record compression_report =
  original_size :: int
  compressed_size :: int
  compression_ratio :: real

text \<open>\<^verbatim>\<open>weights.flatten().reshape(-1, 1)\<close>\<close>

fun flatten_column :: "tensor \<Rightarrow> tensor" where
  "flatten_column (Tensor s d) = Tensor [length d, 1] d"
| "flatten_column (NaNTensor s) = NaNTensor [prod_list s, 1]"

text \<open>\<^verbatim>\<open>astype(np.uint8 if self.num_clusters <= 256 else np.uint16)\<close> of an integer
  label keeps its low 8 or 16 bits.\<close>

definition astype_index :: "int \<Rightarrow> int \<Rightarrow> int" where
  "astype_index k l = (if k \<le> 256 then l mod 2 ^ 8 else l mod 2 ^ 16)"

text \<open>
  \<^verbatim>\<open>int(np.ceil(np.log2(k)))\<close>: for \<open>k = 0\<close> the logarithm is minus infinity and
  \<^verbatim>\<open>int\<close> raises \<^verbatim>\<open>OverflowError\<close>; for \<open>k < 0\<close> it is not a number and
  \<^verbatim>\<open>int\<close> raises \<^verbatim>\<open>ValueError\<close>.
\<close>

definition index_bits_of :: "int \<Rightarrow> error + int" where
  "index_bits_of k =
     (if k = 0 then Inl OverflowError
      else if k < 0 then Inl ValueError
      else Inr \<lceil>log 2 (of_int k)\<rceil>)"

text \<open>
  \<^verbatim>\<open>quantize_layer_weights(weights, layer_name)\<close>: the quantizer after the call, and the
  exception raised or the returned pair together with the printed figures.
  \<^verbatim>\<open>labels.reshape(original_shape)\<close> raises \<^verbatim>\<open>ValueError\<close> unless there is one label
  for each weight.
\<close>

definition quantize_layer_weights :: "kmeans \<Rightarrow> clustering_quantizer \<Rightarrow> tensor \<Rightarrow> string
    \<Rightarrow> clustering_quantizer \<times> (error + (index_tensor \<times> real list) \<times> compression_report)" where
  "quantize_layer_weights km q weights layer_name =
     (case km (num_clusters q) (flatten_column weights) of
        Inl e \<Rightarrow> (q, Inl e)
      | Inr (labels, centroids) \<Rightarrow>
          if length labels \<noteq> tsize weights then (q, Inl ValueError)
          else
            (let idx = (shape weights, map (astype_index (num_clusters q)) labels);
                 codebook = centroids;
                 q' = q\<lparr>codebooks := AList.update layer_name codebook (codebooks q),
                        indices := AList.update layer_name idx (indices q)\<rparr>;
                 osize = int (tsize weights) * 32
             in case index_bits_of (num_clusters q) of
                  Inl e \<Rightarrow> (q', Inl e)
                | Inr index_bits \<Rightarrow>
                    (let csize = int (tsize weights) * index_bits + num_clusters q * 32
                     in (q', Inr ((idx, codebook),
                           \<lparr>original_size = osize, compressed_size = csize,
                            compression_ratio = of_int osize / of_int csize\<rparr>)))))"

subsection \<open>Logarithmic quantization of activations\<close>

text \<open>\<^verbatim>\<open>astype(np.uint8)\<close> of a float holding an integer: the x86-64 build keeps the
  low eight bits.\<close>

definition astype_uint8 :: "int \<Rightarrow> int" where
  "astype_uint8 i = i mod 2 ^ 8"

text \<open>
  \<^verbatim>\<open>logarithmic_quantize_activation(activation, out_bits)\<close> on an array of finite
  elements \<open>d\<close> (the shape is kept and plays no part). \<^verbatim>\<open>activation.max()\<close> of an
  array without elements raises \<^verbatim>\<open>ValueError\<close>.
\<close>

definition logarithmic_quantize_activation :: "real list \<Rightarrow> int \<Rightarrow> error + int list" where
  "logarithmic_quantize_activation d out_bits =
     (let activation = map (\<lambda>x. max x 0) d;
          log_activation = map (\<lambda>x. log 2 (x + 1)) activation
      in if activation = [] then Inl ValueError
         else
           (let max_log = log 2 (list_max activation + 1);
                scale = (pow2 out_bits - 1) / (max_log + eps)
            in Inr (map (\<lambda>t. astype_uint8 (np_round (t * scale))) log_activation)))"

text \<open>The integer \<^verbatim>\<open>np.round(log_activation * scale)\<close> of one clamped element \<open>x\<close>
  of the array \<open>d\<close>, before the cast to \<^verbatim>\<open>uint8\<close>, for a bit width \<open>b \<ge> 0\<close>
  (where \<^verbatim>\<open>2 ** b\<close> is the integer power).\<close>

definition log_code :: "real list \<Rightarrow> int \<Rightarrow> real \<Rightarrow> int" where
  "log_code d b x = np_round (log 2 (x + 1)
              * ((2 ^ nat b - 1) / (log 2 (list_max (map (\<lambda>x. max x 0) d) + 1) + eps)))"

text \<open>The value the specification gives: \<open>clip(round(t * scale), 0, 2 ^ outBits - 1)\<close>.\<close>

definition clip :: "int \<Rightarrow> int \<Rightarrow> int \<Rightarrow> int" where
  "clip x lo hi = min (max x lo) hi"

definition spec_log_codes :: "real list \<Rightarrow> int \<Rightarrow> int list" where
  "spec_log_codes d out_bits =
     (let ts = map (\<lambda>x. log 2 (max x 0 + 1)) d;
          scale = (2 ^ nat out_bits - 1) / (list_max ts + eps)
      in map (\<lambda>t. clip (np_round (t * scale)) 0 (2 ^ nat out_bits - 1)) ts)"

subsection \<open>The mixed-precision configuration\<close>

record bit_config =
  weight :: int
  activation :: int

text \<open>The body of the loop of \<^verbatim>\<open>generate_mixed_precision_config\<close> for one layer.\<close>

definition layer_config :: "string \<Rightarrow> layer_info \<Rightarrow> bit_config" where
  "layer_config layer_name info =
     (if contains ''dw'' layer_name
      then \<lparr>weight = optimal_bits info, activation = max (optimal_bits info) 8\<rparr>
      else \<lparr>weight = optimal_bits info, activation = optimal_bits info + 1\<rparr>)"

text \<open>\<^verbatim>\<open>generate_mixed_precision_config(sensitivity_map)\<close>: the dictionary it returns
  (it also writes it to a file, which is not modelled).\<close>

definition generate_mixed_precision_config ::
    "(string \<times> layer_info) list \<Rightarrow> (string \<times> bit_config) list" where
  "generate_mixed_precision_config smap =
     fold (\<lambda>(layer_name, info) config.
             AList.update layer_name (layer_config layer_name info) config) smap []"

section \<open>Properties of the uniform quantizer\<close>

subsection \<open>Minimum, maximum, scale and rounding\<close>


lemma list_max_ge: "x \<in> set d \<Longrightarrow> x \<le> list_max d"
  by (induction d rule: list_max.induct) auto


lemma list_max_in: "d \<noteq> [] \<Longrightarrow> list_max d \<in> set d"
  by (induction d rule: list_max.induct) (auto simp: max_def)



lemma pow2_nat: "0 \<le> b \<Longrightarrow> pow2 b = 2 ^ nat b"
  by (simp add: pow2_def)



lemma np_round_cases:
  "np_round x = \<lfloor>x\<rfloor> \<and> x - of_int \<lfloor>x\<rfloor> \<le> 1/2 \<or> np_round x = \<lfloor>x\<rfloor> + 1 \<and> 1/2 \<le> x - of_int \<lfloor>x\<rfloor>"
  by (auto simp: np_round_def Let_def)

lemma np_round_abs_le: "\<bar>of_int (np_round x) - x\<bar> \<le> 1/2"
  using np_round_cases [of x] by (auto simp: abs_le_iff; linarith)


lemma np_round_of_int: "np_round (of_int n) = n"
  by (simp add: np_round_def)

lemma np_round_nonneg: "0 \<le> x \<Longrightarrow> 0 \<le> np_round x"
  using np_round_cases [of x] by (auto; linarith)

lemma np_round_le_int: "x \<le> of_int n \<Longrightarrow> np_round x \<le> n"
proof -
  assume le: "x \<le> of_int n"
  then have fl: "\<lfloor>x\<rfloor> \<le> n" by (simp add: floor_le_iff)
  show ?thesis
  proof (cases "\<lfloor>x\<rfloor> = n")
    case True
    with le have "x = of_int n" by (metis of_int_floor_le order_antisym)
    then show ?thesis by (simp add: np_round_of_int)
  next
    case False
    with fl have "\<lfloor>x\<rfloor> + 1 \<le> n" by simp
    then show ?thesis using np_round_cases [of x] fl by auto
  qed
qed





subsection \<open>Refining the grid never increases the error\<close>









subsection \<open>Claims about \<^verbatim>\<open>_quantize_weights\<close>\<close>

text \<open>
  C4. The claim: a bias, the one-dimensional vector of a layer's weight list, comes back
  from \<^verbatim>\<open>_quantize_weights\<close> unchanged, and only the kernels are replaced. The code
  skips an array only when \<^verbatim>\<open>len(w.shape) == 0\<close>, which a one-dimensional bias is
  not: for the kernel \<open>[0, 1]\<close> of shape \<open>1 \<times> 1 \<times> 1 \<times> 2\<close> and the bias \<open>[0, 1, 3]\<close> of
  shape \<open>3\<close> at 3 bits the bias is returned as \<open>[0, 0.857\<dots>, 3.00000001]\<close>.
\<close>

theorem bias_vector_is_quantized:
  "quantize_weights [Tensor [1, 1, 1, 2] [0, 1], Tensor [3] [0, 1, 3]] 3
     = Inr [Tensor [1, 1, 1, 2] [0, 100000001 / 100000000],
            Tensor [3] [0, 42857143 / 50000000, 300000001 / 100000000]]"
  by (simp add: w_dequant_def w_quant_def q_scale_def pow2_def eps_def np_round_def
      astype_int32_def Let_def)







section \<open>Properties of the sensitivity analyser\<close>

subsection \<open>The two loops of \<^verbatim>\<open>analyze_layer\<close>\<close>

subsection \<open>Rounding to binary64\<close>

lemma floor_log2_binade:
  assumes "2 powi e \<le> x" and "x < 2 powi (e + 1)"
  shows "\<lfloor>log 2 x\<rfloor> = e"
proof -
  have "0 < (2::real) powi e" by simp
  with assms(1) have pos: "0 < x" by linarith
  have p1: "(2::real) powr real_of_int e = 2 powi e"
    by (rule powr_real_of_int') simp_all
  have p2: "(2::real) powr real_of_int (e + 1) = 2 powi (e + 1)"
    by (rule powr_real_of_int') simp_all
  have "(2::real) powr real_of_int e \<le> x \<and> x < 2 powr real_of_int (e + 1)"
    unfolding p1 p2 using assms by simp
  then show ?thesis using floor_log_eq_powr_iff [OF pos, of 2 e] by simp
qed

lemma binary64_binade:
  assumes "2 powi e \<le> x" and "x < 2 powi (e + 1)" and "- 1022 \<le> e"
  shows "binary64 x = of_int (np_round (x / 2 powi (e - 52))) * 2 powi (e - 52)"
proof -
  have "0 < (2::real) powi e" by simp
  with assms(1) have pos: "0 < x" by linarith
  have fl: "\<lfloor>log 2 x\<rfloor> = e" using assms(1,2) by (rule floor_log2_binade)
  show ?thesis using pos assms(3) by (simp add: binary64_def Let_def fl max_def)
qed

lemma binary64_half_to_one:
  assumes "1/2 \<le> x" and "x < 1"
  shows "binary64 x = of_int (np_round (x * 2 ^ 53)) / 2 ^ 53"
  using binary64_binade [of "-1" x] assms by (simp add: power_int_minus field_simps)

lemma binary64_one: "binary64 1 = 1"
  using binary64_binade [of 0 1] np_round_of_int [of "2 ^ 52"]
  by (simp add: power_int_minus field_simps)

lemma accuracy_threshold_value: "accuracy_threshold = 4458563631096791 / 4503599627370496"
  unfolding accuracy_threshold_def
  by (subst binary64_half_to_one) (simp_all add: np_round_def Let_def)

lemma binary64_threshold: "binary64 accuracy_threshold = accuracy_threshold"
  unfolding accuracy_threshold_value
  by (subst binary64_half_to_one) (simp_all add: np_round_def Let_def)

lemma threshold_le_one: "accuracy_threshold \<le> 1"
  by (simp add: accuracy_threshold_value)

lemma b9207: "binary64 (9207 / 10000) = 8292928353840031 / 9007199254740992"
  by (subst binary64_half_to_one) (simp_all add: np_round_def Let_def)

lemma b9300: "binary64 (9300 / 10000) = 8376695306909123 / 9007199254740992"
  by (subst binary64_half_to_one) (simp_all add: np_round_def Let_def)

lemma thr9300: "binary64 (8376695306909123 / 9007199254740992 * accuracy_threshold)
    = 259154011057501 / 281474976710656"
  unfolding accuracy_threshold_value
  by (subst binary64_half_to_one) (simp_all add: np_round_def Let_def)

lemma b99: "binary64 (99 / 100) = 4458563631096791 / 4503599627370496"
  using accuracy_threshold_value by (simp add: accuracy_threshold_def)

lemma b93: "binary64 (93 / 100) = 8376695306909123 / 9007199254740992"
  using b9300 by simp

lemma b_c99: "binary64 (4458563631096791 / 4503599627370496) = 4458563631096791 / 4503599627370496"
  using binary64_threshold by (simp add: accuracy_threshold_value)

lemma thr93: "binary64 (8376695306909123 * accuracy_threshold / 9007199254740992)
    = 259154011057501 / 281474976710656"
  using thr9300 by simp

lemma sweep_model:
  "sweep ev m name original curve bs = (m', r) \<Longrightarrow> m' = m \<or> (\<exists>q. m' = AList.update name q m)"
proof (induction bs arbitrary: m curve)
  case Nil
  then show ?case by simp
next
  case (Cons b bs)
  show ?case
  proof (cases "quantize_weights original b")
    case (Inl e)
    with Cons.prems show ?thesis by simp
  next
    case (Inr q)
    show ?thesis
    proof (cases "ev (AList.update name q m)")
      case (Inl e)
      with Cons.prems Inr show ?thesis by auto
    next
      case (Inr acc)
      with Cons.prems \<open>quantize_weights original b = Inr q\<close>
      have "sweep ev (AList.update name q m) name original
              (AList.update b (binary64 acc) curve) bs = (m', r)"
        by simp
      from Cons.IH [OF this] show ?thesis by auto
    qed
  qed
qed

lemma restore_after_sweep:
  assumes "sweep ev m name original curve bs = (m', r)" and "map_of m name = Some original"
  shows "AList.update name original m' = m"
  using sweep_model [OF assms(1)] assms(2) by (auto simp: update_triv)

lemma sweep_keys:
  "sweep ev m name original curve bs = (m', Inr c) \<Longrightarrow> fst ` set c = fst ` set curve \<union> set bs"
proof (induction bs arbitrary: m curve)
  case Nil
  then show ?case by simp
next
  case (Cons b bs)
  from Cons.prems obtain q acc where
    q: "quantize_weights original b = Inr q" and
    acc: "ev (AList.update name q m) = Inr acc" and
    rest: "sweep ev (AList.update name q m) name original
             (AList.update b (binary64 acc) curve) bs = (m', Inr c)"
    by (auto simp: Let_def split: sum.splits)
  from Cons.IH [OF rest] show ?case by (auto simp: dom_update)
qed

lemma select_bits_upto:
  "select_bits curve thr dflt [l..h] = Inr opt \<Longrightarrow>
     (l \<le> opt \<and> opt \<le> h \<and> (\<exists>acc. map_of curve opt = Some acc \<and> thr \<le> acc)
        \<and> (\<forall>b. l \<le> b \<and> b < opt \<longrightarrow> (\<exists>acc. map_of curve b = Some acc \<and> acc < thr)))
   \<or> (opt = dflt \<and> (\<forall>b. l \<le> b \<and> b \<le> h \<longrightarrow> (\<exists>acc. map_of curve b = Some acc \<and> acc < thr)))"
proof (induction "nat (h + 1 - l)" arbitrary: l)
  case 0
  then have "[l..h] = []" by simp
  with 0 show ?case by auto
next
  case (Suc n)
  then have lh: "l \<le> h" by simp
  then have up: "[l..h] = l # [l + 1..h]" by (rule upto_rec1)
  show ?case
  proof (cases "map_of curve l")
    case None
    with Suc.prems up show ?thesis by simp
  next
    case (Some a)
    show ?thesis
    proof (cases "thr \<le> a")
      case True
      with Suc.prems up Some have "opt = l" by simp
      with Some True lh show ?thesis by auto
    next
      case False
      with Suc.prems up Some have rest: "select_bits curve thr dflt [l + 1..h] = Inr opt" by simp
      have n: "n = nat (h + 1 - (l + 1))" using Suc.hyps(2) by simp
      have fl: "\<exists>acc. map_of curve l = Some acc \<and> acc < thr" using Some False by simp
      from Suc.hyps(1) [OF n rest] show ?thesis
      proof
        assume h1: "l + 1 \<le> opt \<and> opt \<le> h \<and> (\<exists>acc. map_of curve opt = Some acc \<and> thr \<le> acc)
          \<and> (\<forall>b. l + 1 \<le> b \<and> b < opt \<longrightarrow> (\<exists>acc. map_of curve b = Some acc \<and> acc < thr))"
        have "\<exists>acc. map_of curve b = Some acc \<and> acc < thr" if "l \<le> b \<and> b < opt" for b
        proof (cases "b = l")
          case True with fl show ?thesis by simp
        next
          case False with that h1 show ?thesis by simp
        qed
        with h1 show ?thesis by auto
      next
        assume h2: "opt = dflt \<and> (\<forall>b. l + 1 \<le> b \<and> b \<le> h \<longrightarrow> (\<exists>acc. map_of curve b = Some acc \<and> acc < thr))"
        have "\<exists>acc. map_of curve b = Some acc \<and> acc < thr" if "l \<le> b \<and> b \<le> h" for b
        proof (cases "b = l")
          case True with fl show ?thesis by simp
        next
          case False with that h2 show ?thesis by simp
        qed
        with h2 show ?thesis by auto
      qed
    qed
  qed
qed

lemma analyze_layer_Inr:
  assumes "analyze_layer ev a name (lo, hi) = (a', Inr (opt, curve))"
  obtains original m1 base where
    "map_of (model a) name = Some original"
    "sweep ev (model a) name original [] [lo..hi] = (m1, Inr curve)"
    "map_of curve hi = Some base"
    "select_bits curve (binary64 (base * accuracy_threshold)) hi [lo..hi] = Inr opt"
    "a' = a\<lparr>model := AList.update name original m1,
            sensitivity_map := AList.update name
               \<lparr>optimal_bits = opt, sensitivity_curve = curve\<rparr> (sensitivity_map a)\<rparr>"
  using assms
  by (auto simp: analyze_layer_def Let_def split: option.splits prod.splits sum.splits)


lemma analyze_layer_names: "analyze_layer ev a n rng = (a', r) \<Longrightarrow> layer_names a' = layer_names a"
  by (auto simp: analyze_layer_def Let_def split: option.splits prod.splits sum.splits)



subsection \<open>Claims about \<^verbatim>\<open>analyze_layer\<close> and \<^verbatim>\<open>analyze_all_layers\<close>\<close>

text \<open>
  C1, as stated: on every exit path of \<^verbatim>\<open>analyze_layer\<close>, an exception of the
  evaluation included, the layer's weights afterwards are the ones before the call. The
  restoring \<^verbatim>\<open>set_weights\<close> stands after the loop, outside any handler: when the
  forward pass raises at the first candidate (3 bits) the call ends with the exception
  and the layer keeps the quantized weights \<open>[0, 0.857\<dots>, 3.00000001]\<close> instead of
  \<open>[0, 1, 3]\<close>.
\<close>

theorem weights_not_restored_counterexample:
  "analyze_layer (\<lambda>m. Inl PredictError)
      \<lparr>model = [(''conv1'', [Tensor [3] [0, 1, 3]])], layer_names = [''conv1''],
       sensitivity_map = []\<rparr> ''conv1'' (3, 3)
   = (\<lparr>model = [(''conv1'', [Tensor [3] [0, 42857143 / 50000000, 300000001 / 100000000]])],
       layer_names = [''conv1''], sensitivity_map = []\<rparr>, Inl PredictError)"
  by (simp add: analyze_layer_def w_dequant_def w_quant_def q_scale_def pow2_def eps_def
      np_round_def astype_int32_def Let_def)

text \<open>
  C1, amended: for every call of \<^verbatim>\<open>analyze_layer\<close> that returns, the model holds
  afterwards the weights it held before the call (the restoring \<^verbatim>\<open>set_weights\<close> runs
  once the loop over the bit widths has ended).
\<close>

theorem weights_restored_on_return:
  assumes "analyze_layer ev a name (lo, hi) = (a', Inr r)"
  shows "model a' = model a"
proof -
  obtain opt curve where r: "r = (opt, curve)" by (cases r)
  from assms [unfolded r] obtain original m1 where
    o: "map_of (model a) name = Some original" and
    s: "sweep ev (model a) name original [] [lo..hi] = (m1, Inr curve)" and
    a': "model a' = AList.update name original m1"
    by (rule analyze_layer_Inr) simp
  from restore_after_sweep [OF s o] a' show ?thesis by simp
qed

theorem weights_restored_on_return_witness:
  "analyze_layer (\<lambda>m. Inr 1)
      \<lparr>model = [(''conv1'', [Tensor [3] [0, 1, 3]])], layer_names = [''conv1''],
       sensitivity_map = []\<rparr> ''conv1'' (3, 3)
     = (\<lparr>model = [(''conv1'', [Tensor [3] [0, 1, 3]])], layer_names = [''conv1''],
         sensitivity_map = [(''conv1'', \<lparr>optimal_bits = 3, sensitivity_curve = [(3, 1)]\<rparr>)]\<rparr>,
        Inr (3, [(3, 1)]))
   \<and> model \<lparr>model = [(''conv1'', [Tensor [3] [0, 1, 3]])], layer_names = [''conv1''],
         sensitivity_map = [(''conv1'', \<lparr>optimal_bits = 3, sensitivity_curve = [(3, 1)]\<rparr>)]\<rparr>
     = model \<lparr>model = [(''conv1'', [Tensor [3] [0, 1, 3]])], layer_names = [''conv1''],
       sensitivity_map = []\<rparr>"
proof -
  have run: "analyze_layer (\<lambda>m. Inr 1)
      \<lparr>model = [(''conv1'', [Tensor [3] [0, 1, 3]])], layer_names = [''conv1''],
       sensitivity_map = []\<rparr> ''conv1'' (3, 3)
     = (\<lparr>model = [(''conv1'', [Tensor [3] [0, 1, 3]])], layer_names = [''conv1''],
         sensitivity_map = [(''conv1'', \<lparr>optimal_bits = 3, sensitivity_curve = [(3, 1)]\<rparr>)]\<rparr>,
        Inr (3, [(3, 1)]))"
    by (simp add: analyze_layer_def w_dequant_def w_quant_def q_scale_def pow2_def eps_def
      np_round_def astype_int32_def Let_def binary64_one binary64_threshold threshold_le_one)
  from weights_restored_on_return [OF run] run show ?thesis by simp
qed

text \<open>
  C2, as stated: \<open>optimal_bits\<close> is the least candidate whose measured accuracy is at
  least \<open>0.99\<close> times the accuracy measured at the largest bit width. The code compares
  binary64 values with the binary64 product \<^verbatim>\<open>baseline_accuracy * 0.99\<close>, and the
  roundings decide a candidate that lies on the threshold.
  \<^item> With 9207 of 10000 labels right at 4 bits and 9300 of 10000 at 5 bits the
    fractions meet the claim's threshold (\<open>0.99 \<times> 0.93 = 0.9207\<close>), but the product is
    rounded up to \<open>0.9207000000000001\<close>, above the binary64 value of \<open>0.9207\<close>: the
    code returns 5.
  \<^item> With 99 of 100 right at 4 bits and all right at 5 bits the code returns 4, although
    the binary64 value measured at 4 bits lies below \<open>0.99\<close> times the one measured at
    5 bits.
\<close>

theorem exact_threshold_counterexample:
  "analyze_layer
      (\<lambda>m. if map_of m ''conv1''
                 = Some [Tensor [3] [0, 300000001 / 300000000, 300000001 / 100000000]]
            then Inr (9207 / 10000) else Inr (9300 / 10000))
      \<lparr>model = [(''conv1'', [Tensor [3] [0, 1, 3]])], layer_names = [''conv1''],
       sensitivity_map = []\<rparr> ''conv1'' (4, 5)
     = (\<lparr>model = [(''conv1'', [Tensor [3] [0, 1, 3]])], layer_names = [''conv1''],
         sensitivity_map = [(''conv1'', \<lparr>optimal_bits = 5, sensitivity_curve =
            [(4, 8292928353840031 / 9007199254740992),
             (5, 8376695306909123 / 9007199254740992)]\<rparr>)]\<rparr>,
        Inr (5, [(4, 8292928353840031 / 9007199254740992),
                 (5, 8376695306909123 / 9007199254740992)]))
   \<and> (99 / 100) * (9300 / 10000) \<le> (9207 / 10000 :: real)
   \<and> analyze_layer
      (\<lambda>m. if map_of m ''conv1''
                 = Some [Tensor [3] [0, 300000001 / 300000000, 300000001 / 100000000]]
            then Inr (99 / 100) else Inr 1)
      \<lparr>model = [(''conv1'', [Tensor [3] [0, 1, 3]])], layer_names = [''conv1''],
       sensitivity_map = []\<rparr> ''conv1'' (4, 5)
     = (\<lparr>model = [(''conv1'', [Tensor [3] [0, 1, 3]])], layer_names = [''conv1''],
         sensitivity_map = [(''conv1'', \<lparr>optimal_bits = 4, sensitivity_curve =
            [(4, 4458563631096791 / 4503599627370496), (5, 1)]\<rparr>)]\<rparr>,
        Inr (4, [(4, 4458563631096791 / 4503599627370496), (5, 1)]))
   \<and> \<not> (99 / 100) * 1 \<le> (4458563631096791 / 4503599627370496 :: real)"
  using accuracy_threshold_value
  by (simp add: analyze_layer_def upto_rec1 w_dequant_def w_quant_def q_scale_def pow2_def eps_def
      np_round_def astype_int32_def Let_def
      b9207 b93 thr93 b99 binary64_one binary64_threshold)

text \<open>
  C2, amended: whenever \<^verbatim>\<open>analyze_layer\<close> returns \<open>(optimal_bits, curve)\<close> for the
  range \<open>[lo, hi]\<close>, the range is not empty, the curve has an entry for exactly the bit
  widths of the range, \<open>optimal_bits\<close> lies in the range and is what the sensitivity
  map records; and with \<open>base\<close> the accuracy measured at \<open>hi\<close> and the threshold the
  binary64 product of \<open>base\<close> and the binary64 value of \<open>0.99\<close>, as the code computes
  it: if some candidate's measured accuracy reaches the threshold then \<open>optimal_bits\<close>
  reaches it and every smaller candidate of the range stays below it, and if no candidate
  reaches it then \<open>optimal_bits = hi\<close>.
\<close>

theorem optimal_bits_is_least_sufficient:
  assumes "analyze_layer ev a name (lo, hi) = (a', Inr (opt, curve))"
  shows "lo \<le> hi \<and> lo \<le> opt \<and> opt \<le> hi
       \<and> fst ` set curve = {lo..hi}
       \<and> map_of (sensitivity_map a') name
           = Some \<lparr>optimal_bits = opt, sensitivity_curve = curve\<rparr>
       \<and> (\<exists>base. map_of curve hi = Some base
            \<and> ((\<exists>b acc. lo \<le> b \<and> b \<le> hi \<and> map_of curve b = Some acc \<and> binary64 (base * accuracy_threshold) \<le> acc)
                 \<longrightarrow> (\<exists>acc. map_of curve opt = Some acc \<and> binary64 (base * accuracy_threshold) \<le> acc)
                   \<and> (\<forall>b. lo \<le> b \<and> b < opt \<longrightarrow>
                          (\<exists>acc. map_of curve b = Some acc \<and> acc < binary64 (base * accuracy_threshold))))
            \<and> ((\<forall>b acc. lo \<le> b \<and> b \<le> hi \<and> map_of curve b = Some acc \<longrightarrow> acc < binary64 (base * accuracy_threshold))
                 \<longrightarrow> opt = hi))"
proof -
  from assms obtain original m1 base where
    s: "sweep ev (model a) name original [] [lo..hi] = (m1, Inr curve)" and
    b: "map_of curve hi = Some base" and
    sel: "select_bits curve (binary64 (base * accuracy_threshold)) hi [lo..hi] = Inr opt" and
    a': "a' = a\<lparr>model := AList.update name original m1,
            sensitivity_map := AList.update name
               \<lparr>optimal_bits = opt, sensitivity_curve = curve\<rparr> (sensitivity_map a)\<rparr>"
    by (rule analyze_layer_Inr)
  have keys: "fst ` set curve = {lo..hi}" using sweep_keys [OF s] by simp
  from b have "hi \<in> fst ` set curve" by (metis map_of_eq_None_iff option.distinct(1))
  with keys have lohi: "lo \<le> hi" by simp
  have stored: "map_of (sensitivity_map a') name
           = Some \<lparr>optimal_bits = opt, sensitivity_curve = curve\<rparr>"
    by (simp add: a' update_conv')
  let ?meets = "\<lambda>b. \<exists>acc. map_of curve b = Some acc \<and> binary64 (base * accuracy_threshold) \<le> acc"
  let ?fails = "\<lambda>b. \<exists>acc. map_of curve b = Some acc \<and> acc < binary64 (base * accuracy_threshold)"
  from select_bits_upto [OF sel]
  consider (found) "lo \<le> opt" "opt \<le> hi" "?meets opt" "\<forall>b. lo \<le> b \<and> b < opt \<longrightarrow> ?fails b"
    | (none) "opt = hi" "\<forall>b. lo \<le> b \<and> b \<le> hi \<longrightarrow> ?fails b"
    by blast
  then show ?thesis
  proof cases
    case found
    have "opt = hi" if "\<forall>b acc. lo \<le> b \<and> b \<le> hi \<and> map_of curve b = Some acc \<longrightarrow> acc < binary64 (base * accuracy_threshold)"
      using that found(1-3) by force
    with found lohi keys stored b show ?thesis by auto
  next
    case none
    have "\<not> (\<exists>b acc. lo \<le> b \<and> b \<le> hi \<and> map_of curve b = Some acc \<and> binary64 (base * accuracy_threshold) \<le> acc)"
      using none(2) by force
    with none lohi keys stored b show ?thesis by auto
  qed
qed

theorem optimal_bits_is_least_sufficient_witness:
  "analyze_layer (\<lambda>m. Inr 1)
      \<lparr>model = [(''conv1'', [Tensor [] [5]])], layer_names = [''conv1''], sensitivity_map = []\<rparr>
      ''conv1'' (3, 4)
     = (\<lparr>model = [(''conv1'', [Tensor [] [5]])], layer_names = [''conv1''],
         sensitivity_map =
           [(''conv1'', \<lparr>optimal_bits = 3, sensitivity_curve = [(3, 1), (4, 1)]\<rparr>)]\<rparr>,
        Inr (3, [(3, 1), (4, 1)]))
   \<and> (3::int) \<le> 4
   \<and> fst ` set [(3::int, 1 :: real), (4, 1)] = {3..4}"
proof -
  have run: "analyze_layer (\<lambda>m. Inr 1)
      \<lparr>model = [(''conv1'', [Tensor [] [5]])], layer_names = [''conv1''], sensitivity_map = []\<rparr>
      ''conv1'' (3, 4)
     = (\<lparr>model = [(''conv1'', [Tensor [] [5]])], layer_names = [''conv1''],
         sensitivity_map =
           [(''conv1'', \<lparr>optimal_bits = 3, sensitivity_curve = [(3, 1), (4, 1)]\<rparr>)]\<rparr>,
        Inr (3, [(3, 1), (4, 1)]))"
    by (simp add: analyze_layer_def upto_rec1 binary64_one binary64_threshold threshold_le_one)
  from optimal_bits_is_least_sufficient [OF run]
  have "(3::int) \<le> 4 \<and> fst ` set [(3::int, 1 :: real), (4, 1)] = {3..4}"
    by blast
  with run show ?thesis by blast
qed




section \<open>Properties of the configuration builder\<close>

lemma config_fold_other:
  "name \<notin> fst ` set smap \<Longrightarrow>
     map_of (fold (\<lambda>(layer_name, info) config.
               AList.update layer_name (layer_config layer_name info) config) smap acc) name
       = map_of acc name"
  by (induction smap arbitrary: acc) (auto simp: update_conv')

lemma config_fold_entry:
  "distinct (map fst smap) \<Longrightarrow> (name, info) \<in> set smap \<Longrightarrow>
     map_of (fold (\<lambda>(layer_name, info) config.
               AList.update layer_name (layer_config layer_name info) config) smap acc) name
       = Some (layer_config name info)"
proof (induction smap arbitrary: acc)
  case Nil
  then show ?case by simp
next
  case (Cons p smap)
  obtain n i where p: "p = (n, i)" by (cases p)
  show ?case
  proof (cases "(name, info) = (n, i)")
    case True
    with Cons.prems p have "name \<notin> fst ` set smap" by auto
    from config_fold_other [OF this] True p show ?thesis by (simp add: update_conv')
  next
    case False
    with Cons.prems p have "distinct (map fst smap)" "(name, info) \<in> set smap" by auto
    from Cons.IH [OF this] p show ?thesis by simp
  qed
qed

text \<open>
  C7. For every sensitivity map (a dictionary, so with distinct layer names) and every
  layer in it with optimal bits \<open>n\<close>, the configuration has for that layer the entry
  \<open>{weight: n, activation: max(n, 8)}\<close> when the layer is classified depthwise (its
  name contains \<^verbatim>\<open>dw\<close>) and \<open>{weight: n, activation: n + 1}\<close> otherwise; and the map
  \<open>{conv1_dw: 8, conv1_pw: 6}\<close> gives \<open>{conv1_dw: {weight: 8, activation: 8},
  conv1_pw: {weight: 6, activation: 7}}\<close>.
\<close>

theorem mixed_precision_entries:
  "(distinct (map fst smap) \<and> (name, info) \<in> set smap \<longrightarrow>
      map_of (generate_mixed_precision_config smap) name
        = Some (if contains ''dw'' name
                then \<lparr>weight = optimal_bits info, activation = max (optimal_bits info) 8\<rparr>
                else \<lparr>weight = optimal_bits info, activation = optimal_bits info + 1\<rparr>))
   \<and> generate_mixed_precision_config
        [(''conv1_dw'', \<lparr>optimal_bits = 8, sensitivity_curve = []\<rparr>),
         (''conv1_pw'', \<lparr>optimal_bits = 6, sensitivity_curve = []\<rparr>)]
      = [(''conv1_dw'', \<lparr>weight = 8, activation = 8\<rparr>),
         (''conv1_pw'', \<lparr>weight = 6, activation = 7\<rparr>)]"
proof (intro conjI impI)
  assume "distinct (map fst smap) \<and> (name, info) \<in> set smap"
  then show "map_of (generate_mixed_precision_config smap) name
        = Some (if contains ''dw'' name
                then \<lparr>weight = optimal_bits info, activation = max (optimal_bits info) 8\<rparr>
                else \<lparr>weight = optimal_bits info, activation = optimal_bits info + 1\<rparr>)"
    using config_fold_entry [of smap name info "[]"]
    by (simp add: generate_mixed_precision_config_def layer_config_def)
next
  show "generate_mixed_precision_config
        [(''conv1_dw'', \<lparr>optimal_bits = 8, sensitivity_curve = []\<rparr>),
         (''conv1_pw'', \<lparr>optimal_bits = 6, sensitivity_curve = []\<rparr>)]
      = [(''conv1_dw'', \<lparr>weight = 8, activation = 8\<rparr>),
         (''conv1_pw'', \<lparr>weight = 6, activation = 7\<rparr>)]"
    by (simp add: generate_mixed_precision_config_def layer_config_def)
qed

theorem mixed_precision_entries_witness:
  "distinct (map fst [(''conv2_dw'', \<lparr>optimal_bits = 7, sensitivity_curve = []\<rparr>),
                      (''conv2_pw'', \<lparr>optimal_bits = 6, sensitivity_curve = []\<rparr>)])
   \<and> (''conv2_dw'', \<lparr>optimal_bits = 7, sensitivity_curve = []\<rparr>)
       \<in> set [(''conv2_dw'', \<lparr>optimal_bits = 7, sensitivity_curve = []\<rparr>),
              (''conv2_pw'', \<lparr>optimal_bits = 6, sensitivity_curve = []\<rparr>)]
   \<and> map_of (generate_mixed_precision_config
        [(''conv2_dw'', \<lparr>optimal_bits = 7, sensitivity_curve = []\<rparr>),
         (''conv2_pw'', \<lparr>optimal_bits = 6, sensitivity_curve = []\<rparr>)]) ''conv2_dw''
      = Some \<lparr>weight = 7, activation = 8\<rparr>"
  using mixed_precision_entries
    [of "[(''conv2_dw'', \<lparr>optimal_bits = 7, sensitivity_curve = []\<rparr>),
          (''conv2_pw'', \<lparr>optimal_bits = 6, sensitivity_curve = []\<rparr>)]"
        "''conv2_dw''" "\<lparr>optimal_bits = 7, sensitivity_curve = []\<rparr>", THEN conjunct1]
  by simp

section \<open>Properties of the clustering quantizer\<close>

lemma index_bits_16: "index_bits_of 16 = Inr 4"
proof -
  have "log 2 (16::real) = log 2 (2 ^ 4)" by simp
  also have "\<dots> = 4" by (subst log_nat_power) simp_all
  finally show ?thesis by (simp add: index_bits_of_def)
qed

text \<open>
  C6, as stated, ends with a figure: for 16 clusters on 512 weights of 32 bits the ratio
  \<open>(32 \<times> 512) / (4 \<times> 512 + 16 \<times> 32)\<close> is about \<open>5.33\<close>. The function reports
  \<open>16384 / 2560 = 6.4\<close> there, which is also the value of that very quotient.
\<close>

theorem scenario_ratio_counterexample:
  "quantize_layer_weights (\<lambda>k t. Inr (replicate 512 0, replicate 16 0))
      \<lparr>num_clusters = 16, codebooks = [], indices = []\<rparr>
      (Tensor [1, 1, 64, 8] (replicate 512 0)) ''conv1_pw''
     = (\<lparr>num_clusters = 16, codebooks = [(''conv1_pw'', replicate 16 0)],
         indices = [(''conv1_pw'', ([1, 1, 64, 8], replicate 512 0))]\<rparr>,
        Inr ((([1, 1, 64, 8], replicate 512 0), replicate 16 0),
             \<lparr>original_size = 16384, compressed_size = 2560, compression_ratio = 32 / 5\<rparr>))
   \<and> (32 * 512) / (4 * 512 + 16 * 32) = (32 / 5 :: real)
   \<and> \<not> \<bar>32 / 5 - 533 / 100\<bar> < (1 :: real)"
  by (simp add: quantize_layer_weights_def index_bits_16 astype_index_def Let_def)

text \<open>
  C6, amended: for every cluster count \<open>k \<ge> 1\<close> and every weight array for which the
  clustering returns one label for each weight, \<^verbatim>\<open>quantize_layer_weights\<close> returns and
  the ratio it reports is \<open>(32 \<times> size) / (\<lceil>log2 k\<rceil> \<times> size + k \<times> 32)\<close>; for \<open>k = 16\<close> on
  512 weights that is \<open>6.4\<close>.
\<close>

theorem compression_ratio_formula:
  assumes "1 \<le> num_clusters q"
    and "km (num_clusters q) (flatten_column w) = Inr (labels, centroids)"
    and "length labels = tsize w"
  shows "\<exists>q' res rep. quantize_layer_weights km q w layer_name = (q', Inr (res, rep))
      \<and> compression_ratio rep
          = (32 * real (tsize w))
            / (of_int \<lceil>log 2 (of_int (num_clusters q))\<rceil> * real (tsize w)
               + of_int (num_clusters q) * 32)"
  using assms
  by (simp add: quantize_layer_weights_def index_bits_of_def Let_def algebra_simps)

theorem compression_ratio_formula_witness:
  "(1::int) \<le> 16
   \<and> (\<exists>q' res rep.
        quantize_layer_weights (\<lambda>k t. Inr (replicate 512 0, replicate 16 0))
          \<lparr>num_clusters = 16, codebooks = [], indices = []\<rparr>
          (Tensor [1, 1, 64, 8] (replicate 512 0)) ''conv1_pw'' = (q', Inr (res, rep))
        \<and> compression_ratio rep = 32 / 5)"
proof -
  have l: "\<lceil>log 2 (16::real)\<rceil> = 4"
    using index_bits_16 by (simp add: index_bits_of_def)
  from compression_ratio_formula
    [of "\<lparr>num_clusters = 16, codebooks = [], indices = []\<rparr>"
        "\<lambda>k t. Inr (replicate 512 0, replicate 16 0)"
        "Tensor [1, 1, 64, 8] (replicate 512 0)" "replicate 512 0" "replicate 16 0" "''conv1_pw''"]
  show ?thesis by (simp add: l)
qed

lemma tsize_flatten_column: "tsize (flatten_column w) = tsize w"
  by (cases w) simp_all

text \<open>
  C9. With a clustering routine that validates its inputs as the specification says,
  \<^verbatim>\<open>quantize_layer_weights\<close> fails with \<^verbatim>\<open>InvalidClusterCount\<close> for every cluster count
  below one, and with \<^verbatim>\<open>EmptyTensor\<close> for every array without elements (the count being
  valid, as the count is checked first). The failure is the same whatever the
  clustering proper would compute, so it precedes it; and the quantizer is returned as it
  was, because \<^verbatim>\<open>self.codebooks\<close> and \<^verbatim>\<open>self.indices\<close> are assigned only after
  \<^verbatim>\<open>fit_predict\<close> has returned.
\<close>

theorem invalid_inputs_fail_and_store_nothing:
  "(num_clusters q < 1 \<longrightarrow>
      quantize_layer_weights (validated_kmeans core) q w layer_name
        = (q, Inl InvalidClusterCount))
   \<and> (1 \<le> num_clusters q \<and> tsize w = 0 \<longrightarrow>
      quantize_layer_weights (validated_kmeans core) q w layer_name
        = (q, Inl EmptyTensor))"
  by (simp add: quantize_layer_weights_def validated_kmeans_def tsize_flatten_column)

theorem invalid_inputs_fail_and_store_nothing_witness:
  "num_clusters \<lparr>num_clusters = 0, codebooks = [], indices = []\<rparr> < 1
   \<and> quantize_layer_weights (validated_kmeans (\<lambda>k t. Inr ([0, 0], [])))
        \<lparr>num_clusters = 0, codebooks = [], indices = []\<rparr> (Tensor [2] [1, 2]) ''conv1_pw''
      = (\<lparr>num_clusters = 0, codebooks = [], indices = []\<rparr>, Inl InvalidClusterCount)
   \<and> 1 \<le> num_clusters \<lparr>num_clusters = 16, codebooks = [], indices = []\<rparr>
   \<and> tsize (Tensor [0] []) = 0
   \<and> quantize_layer_weights (validated_kmeans (\<lambda>k t. Inr ([], replicate 16 0)))
        \<lparr>num_clusters = 16, codebooks = [], indices = []\<rparr> (Tensor [0] []) ''conv1_pw''
      = (\<lparr>num_clusters = 16, codebooks = [], indices = []\<rparr>, Inl EmptyTensor)"
  using invalid_inputs_fail_and_store_nothing
    [of "\<lparr>num_clusters = 0, codebooks = [], indices = []\<rparr>" "\<lambda>k t. Inr ([0, 0], [])"
        "Tensor [2] [1, 2]" "''conv1_pw''"]
    invalid_inputs_fail_and_store_nothing
    [of "\<lparr>num_clusters = 16, codebooks = [], indices = []\<rparr>" "\<lambda>k t. Inr ([], replicate 16 0)"
        "Tensor [0] []" "''conv1_pw''"]
  by simp

section \<open>Properties of the logarithmic quantizer\<close>

lemma list_max_log:
  "d \<noteq> [] \<Longrightarrow> \<forall>x \<in> set d. 0 \<le> x \<Longrightarrow>
     list_max (map (\<lambda>x. log 2 (x + 1)) d) = log 2 (list_max d + 1)"
proof (induction d rule: list_max.induct)
  case 1
  then show ?case by simp
next
  case (2 x)
  then show ?case by simp
next
  case (3 x y ys)
  then have ih: "list_max (map (\<lambda>x. log 2 (x + 1)) (y # ys)) = log 2 (list_max (y # ys) + 1)"
    by simp
  have "0 \<le> list_max (y # ys)" using list_max_in [of "y # ys"] 3(3) by auto
  moreover have "0 \<le> x" using 3(3) by simp
  ultimately have "max (log 2 (x + 1)) (log 2 (list_max (y # ys) + 1)) = log 2 (max x (list_max (y # ys)) + 1)"
    by (auto simp: max_def)
  with ih show ?case by simp
qed

lemma log_codes_bounds:
  assumes "x \<in> set act" and nn: "\<forall>x \<in> set act. 0 \<le> x" and b: "0 \<le> b"
  shows "0 \<le> np_round (log 2 (x + 1) * ((pow2 b - 1) / (log 2 (list_max act + 1) + eps)))"
    and "np_round (log 2 (x + 1) * ((pow2 b - 1) / (log 2 (list_max act + 1) + eps))) \<le> 2 ^ nat b - 1"
proof -
  let ?t = "log 2 (x + 1)" and ?m = "log 2 (list_max act + 1)"
  have x0: "0 \<le> x" using assms by auto
  have xm: "x \<le> list_max act" using assms(1) by (rule list_max_ge)
  have t0: "0 \<le> ?t" using x0 by simp
  have tm: "?t \<le> ?m" using x0 xm by simp
  have den: "0 < ?m + eps" using t0 tm by (simp add: eps_def add_nonneg_pos)
  have num: "0 \<le> pow2 b - 1" using b by (simp add: pow2_def)
  have s0: "0 \<le> (pow2 b - 1) / (?m + eps)" using num den by simp
  show "0 \<le> np_round (?t * ((pow2 b - 1) / (?m + eps)))"
    using t0 s0 by (intro np_round_nonneg mult_nonneg_nonneg)
  have "?t * ((pow2 b - 1) / (?m + eps)) = (pow2 b - 1) * (?t / (?m + eps))" by simp
  also have "\<dots> \<le> (pow2 b - 1) * 1"
    by (rule mult_left_mono) (use den tm num in \<open>simp_all add: divide_le_eq eps_def\<close>)
  finally have "?t * ((pow2 b - 1) / (?m + eps)) \<le> of_int (2 ^ nat b - 1)"
    using b by (simp add: pow2_def)
  then show "np_round (?t * ((pow2 b - 1) / (?m + eps))) \<le> 2 ^ nat b - 1"
    by (rule np_round_le_int)
qed

lemma np_round_ge_int: "of_int n - 1/2 < x \<Longrightarrow> n \<le> np_round x"
proof -
  assume a: "of_int n - 1/2 < x"
  show ?thesis
  proof (cases "of_int n \<le> x")
    case True
    then have "n \<le> \<lfloor>x\<rfloor>" by (simp add: le_floor_iff)
    then show ?thesis using np_round_cases [of x] by auto
  next
    case False
    then have "\<lfloor>x\<rfloor> < n" by (simp add: floor_less_iff)
    moreover have "n - 1 \<le> \<lfloor>x\<rfloor>" using a by (simp add: le_floor_iff)
    ultimately have fl: "\<lfloor>x\<rfloor> = n - 1" by simp
    then have "1/2 < x - of_int \<lfloor>x\<rfloor>" using a by simp
    then show ?thesis using np_round_cases [of x] fl by auto
  qed
qed

lemma top_code:
  assumes L: "1 \<le> L" and N: "0 \<le> N" "N \<le> 65535"
  shows "np_round (L * (of_int N / (L + eps))) = N"
proof (rule antisym)
  have den: "0 < L + eps" using L by (simp add: eps_def add_pos_pos)
  have Nr: "0 \<le> (of_int N :: real)" "(of_int N :: real) \<le> 65535" using N by simp_all
  have "L * (of_int N / (L + eps)) = of_int N * (L / (L + eps))" by simp
  also have "\<dots> \<le> of_int N * 1"
    by (rule mult_left_mono) (use den Nr in \<open>simp_all add: eps_def\<close>)
  finally show "np_round (L * (of_int N / (L + eps))) \<le> N"
    by (intro np_round_le_int) simp
  have "of_int N * eps \<le> 65535 * eps" using Nr by (simp add: eps_def)
  also have "\<dots> < 1/2 * (L + eps)" using L by (simp add: eps_def)
  finally have "of_int N * (L + eps) - 1/2 * (L + eps) < of_int N * L"
    by (simp add: algebra_simps)
  then have "(of_int N - 1/2) * (L + eps) < L * of_int N"
    by (simp add: algebra_simps)
  then have "of_int N - 1/2 < L * of_int N / (L + eps)"
    using den by (simp add: pos_less_divide_eq)
  then show "N \<le> np_round (L * (of_int N / (L + eps)))"
    by (intro np_round_ge_int) simp
qed

lemma list_max_relu:
  "d \<noteq> [] \<Longrightarrow> list_max (map (\<lambda>x. max x 0) d) = max (list_max d) 0"
  by (induction d rule: list_max.induct) auto

lemma log2_101: "1 \<le> log 2 (101::real)"
proof -
  have "log 2 2 \<le> log 2 (101::real)" by (subst log_le_cancel_iff) simp_all
  then show ?thesis by simp
qed

lemma log_quant_unfold:
  assumes "d \<noteq> []" "0 \<le> b"
  shows "logarithmic_quantize_activation d b
     = Inr (map (\<lambda>x. astype_uint8 (np_round (log 2 (x + 1)
              * ((2 ^ nat b - 1) / (log 2 (list_max (map (\<lambda>x. max x 0) d) + 1) + eps)))))
            (map (\<lambda>x. max x 0) d))"
  using assms unfolding logarithmic_quantize_activation_def Let_def pow2_def
  by (simp add: o_def)

lemma spec_log_unfold:
  assumes "d \<noteq> []"
  shows "spec_log_codes d b
     = map (\<lambda>x. clip (np_round (log 2 (x + 1)
              * ((2 ^ nat b - 1) / (log 2 (list_max (map (\<lambda>x. max x 0) d) + 1) + eps))))
                 0 (2 ^ nat b - 1))
            (map (\<lambda>x. max x 0) d)"
proof -
  have nn: "\<forall>x \<in> set (map (\<lambda>x. max x 0) d). (0::real) \<le> x" by simp
  have ne: "map (\<lambda>x. max x (0::real)) d \<noteq> []" using assms by simp
  have "list_max (map (\<lambda>x. log 2 (x + 1)) (map (\<lambda>x. max x 0) d))
         = log 2 (list_max (map (\<lambda>x. max x 0) d) + 1)"
    using ne nn by (rule list_max_log)
  then have m: "list_max (map (\<lambda>x. log 2 (max x 0 + 1)) d)
         = log 2 (list_max (map (\<lambda>x. max x 0) d) + 1)"
    by (simp only: map_map o_def)
  show ?thesis unfolding spec_log_codes_def Let_def m
    by (simp only: map_map o_def)
qed

lemma single_log_quant:
  assumes "0 \<le> b" "0 \<le> x"
  shows "logarithmic_quantize_activation [x] b
     = Inr [astype_uint8 (np_round (log 2 (x + 1) * ((2 ^ nat b - 1) / (log 2 (x + 1) + eps))))]"
proof -
  have a: "map (\<lambda>x. max x 0) [x] = [x]" using assms(2) by simp
  have "[x] \<noteq> []" by simp
  from log_quant_unfold [OF this assms(1)] show ?thesis
    unfolding a by (simp only: list.map list_max.simps)
qed

lemma single_spec_log:
  assumes "0 \<le> x"
  shows "spec_log_codes [x] b
     = [clip (np_round (log 2 (x + 1) * ((2 ^ nat b - 1) / (log 2 (x + 1) + eps)))) 0 (2 ^ nat b - 1)]"
proof -
  have a: "map (\<lambda>x. max x 0) [x] = [x]" using assms by simp
  have "[x] \<noteq> []" by simp
  from spec_log_unfold [OF this, of b] show ?thesis
    unfolding a by (simp only: list.map list_max.simps)
qed

lemma rounded_log_range:
  assumes "x \<in> set (map (\<lambda>x. max x 0) d)" and b: "0 \<le> b"
  shows "0 \<le> np_round (log 2 (x + 1)
              * ((2 ^ nat b - 1) / (log 2 (list_max (map (\<lambda>x. max x 0) d) + 1) + eps)))"
    and "np_round (log 2 (x + 1)
              * ((2 ^ nat b - 1) / (log 2 (list_max (map (\<lambda>x. max x 0) d) + 1) + eps)))
         \<le> 2 ^ nat b - 1"
proof -
  have nn: "\<forall>x \<in> set (map (\<lambda>x. max x 0) d). (0::real) \<le> x" by simp
  have p: "pow2 b = 2 ^ nat b" using b by (rule pow2_nat)
  from log_codes_bounds(1) [OF assms(1) nn b]
  show "0 \<le> np_round (log 2 (x + 1)
              * ((2 ^ nat b - 1) / (log 2 (list_max (map (\<lambda>x. max x 0) d) + 1) + eps)))"
    unfolding p .
  from log_codes_bounds(2) [OF assms(1) nn b]
  show "np_round (log 2 (x + 1)
              * ((2 ^ nat b - 1) / (log 2 (list_max (map (\<lambda>x. max x 0) d) + 1) + eps)))
         \<le> 2 ^ nat b - 1"
    unfolding p .
qed

lemma uint8_id: "0 \<le> c \<Longrightarrow> c \<le> 2 ^ nat b - 1 \<Longrightarrow> b \<le> 8 \<Longrightarrow> astype_uint8 c = c"
proof -
  assume c: "0 \<le> c" "c \<le> 2 ^ nat b - 1" and b: "b \<le> 8"
  have "nat b \<le> 8" using b by simp
  then have "(2::int) ^ nat b \<le> 2 ^ 8" by (rule power_increasing) simp
  with c have "c < 2 ^ 8" by simp
  with c(1) show ?thesis by (simp add: astype_uint8_def)
qed

lemma clip_id: "0 \<le> c \<Longrightarrow> c \<le> h \<Longrightarrow> clip c 0 h = c"
  by (simp add: clip_def)

lemma log_code_range:
  assumes "x \<in> set (map (\<lambda>x. max x 0) d)" "0 \<le> b"
  shows "0 \<le> log_code d b x" "log_code d b x \<le> 2 ^ nat b - 1"
  unfolding log_code_def using rounded_log_range [OF assms] by blast+

lemma lq_eq:
  assumes "d \<noteq> []" "0 \<le> b" "b \<le> 8"
  shows "logarithmic_quantize_activation d b = Inr (map (log_code d b) (map (\<lambda>x. max x 0) d))"
proof -
  have "map (\<lambda>x. astype_uint8 (log_code d b x)) (map (\<lambda>x. max x 0) d)
      = map (log_code d b) (map (\<lambda>x. max x 0) d)"
  proof (rule map_cong [OF refl])
    fix x assume x: "x \<in> set (map (\<lambda>x. max x 0) d)"
    show "astype_uint8 (log_code d b x) = log_code d b x"
      using log_code_range [OF x assms(2)] assms(3) by (rule uint8_id)
  qed
  then show ?thesis
    unfolding log_quant_unfold [OF assms(1,2)] log_code_def by (rule arg_cong)
qed

lemma spec_eq:
  assumes "d \<noteq> []" "0 \<le> b"
  shows "spec_log_codes d b = map (log_code d b) (map (\<lambda>x. max x 0) d)"
proof -
  have "map (\<lambda>x. clip (log_code d b x) 0 (2 ^ nat b - 1)) (map (\<lambda>x. max x 0) d)
      = map (log_code d b) (map (\<lambda>x. max x 0) d)"
  proof (rule map_cong [OF refl])
    fix x assume x: "x \<in> set (map (\<lambda>x. max x 0) d)"
    show "clip (log_code d b x) 0 (2 ^ nat b - 1) = log_code d b x"
      using log_code_range [OF x assms(2)] by (rule clip_id)
  qed
  then show ?thesis
    unfolding spec_log_unfold [OF assms(1)] log_code_def .
qed

lemma log_code_top:
  assumes "d \<noteq> []" "list_max d = 100"
  shows "log_code d 8 100 = 255"
proof -
  have lm: "list_max (map (\<lambda>x. max x 0) d) = 100"
    unfolding list_max_relu [OF assms(1)] assms(2) by simp
  have p: "(2::real) ^ nat 8 - 1 = 255" by simp
  have e: "(100::real) + 1 = 101" by simp
  have c: "np_round (log 2 101 * (of_int 255 / (log 2 101 + eps))) = 255"
    by (rule top_code [OF log2_101]) simp_all
  have o: "(of_int 255 :: real) = 255" by simp
  show ?thesis unfolding log_code_def lm p e using c unfolding o .
qed

text \<open>
  C8. The function is to return \<open>clip(round(t \<times> scale), 0, 2 ^ outBits - 1)\<close>, a code of
  \<open>outBits\<close> bits, for every \<open>outBits\<close>; its scale is made for that range. But its last
  step is \<^verbatim>\<open>astype(np.uint8)\<close> whatever \<open>outBits\<close> is, and eight bits cannot hold a
  wider code: for the array \<open>[100]\<close> at 9 bits the code is \<open>511\<close>, and the function returns
  \<open>255\<close>.
\<close>

theorem nine_bit_code_truncated:
  "logarithmic_quantize_activation [100] 9 = Inr [255]
   \<and> spec_log_codes [100] 9 = [511]"
proof -
  have p: "(2::real) ^ nat 9 - 1 = 511" by simp
  have pi: "(2::int) ^ nat 9 - 1 = 511" by simp
  have e: "(100::real) + 1 = 101" by simp
  have c: "np_round (log 2 101 * (511 / (log 2 101 + eps))) = 511"
    using top_code [OF log2_101, of 511] by simp
  have u: "astype_uint8 511 = 255" by (simp add: astype_uint8_def)
  have k: "clip 511 0 511 = 511" by (simp add: clip_def)
  have 1: "logarithmic_quantize_activation [100] 9 = Inr [255]"
    using single_log_quant [of 9 100] unfolding p e c u by simp
  have 2: "spec_log_codes [100] 9 = [511]"
    using single_spec_log [of 100 9] unfolding p pi e c k by simp
  from 1 2 show ?thesis by (rule conjI)
qed

text \<open>
  The cast is the only difference. For a non-empty activation array and \<open>outBits\<close> from
  0 to 8 it loses nothing: the function returns
  \<open>clip(round(t \<times> scale), 0, 2 ^ outBits - 1)\<close> with \<open>t = log2(max(x, 0) + 1)\<close> and
  \<open>scale = (2 ^ outBits - 1) / (max t + \<epsilon>)\<close>; every returned code lies in
  \<open>[0, 2 ^ outBits - 1]\<close>; and for an array with maximum 100 at 8 bits the code at each
  element equal to the maximum is 255.
\<close>

lemma log_codes_within_eight_bits:
  assumes "d \<noteq> []" and "0 \<le> out_bits" and "out_bits \<le> 8"
  shows "logarithmic_quantize_activation d out_bits = Inr (spec_log_codes d out_bits)
       \<and> (\<forall>c \<in> set (spec_log_codes d out_bits). 0 \<le> c \<and> c \<le> 2 ^ nat out_bits - 1)
       \<and> (out_bits = 8 \<and> list_max d = 100 \<longrightarrow>
            (\<forall>i < length d. d ! i = 100 \<longrightarrow> spec_log_codes d out_bits ! i = 255))"
proof (intro conjI ballI impI allI)
  note s = spec_eq [OF assms(1,2)]
  show "logarithmic_quantize_activation d out_bits = Inr (spec_log_codes d out_bits)"
    unfolding s by (rule lq_eq [OF assms])
  fix c assume "c \<in> set (spec_log_codes d out_bits)"
  then obtain y where "y \<in> set d" and c: "c = log_code d out_bits (max y 0)"
    unfolding s by auto
  then have x: "max y 0 \<in> set (map (\<lambda>x. max x 0) d)" by simp
  show "0 \<le> c" unfolding c using x assms(2) by (rule log_code_range)
  show "c \<le> 2 ^ nat out_bits - 1" unfolding c using x assms(2) by (rule log_code_range)
next
  fix i
  assume h: "out_bits = 8 \<and> list_max d = 100" and i: "i < length d" and di: "d ! i = 100"
  have "spec_log_codes d out_bits ! i = log_code d out_bits (max (d ! i) 0)"
    unfolding spec_eq [OF assms(1,2)] using i by (simp only: nth_map length_map)
  also have "max (d ! i) 0 = 100" unfolding di by simp
  also have "log_code d out_bits 100 = 255"
    using log_code_top [OF assms(1)] h by blast
  finally show "spec_log_codes d out_bits ! i = 255" .
qed

lemma log_codes_within_eight_bits_example:
  "[0, 100 :: real] \<noteq> [] \<and> (0::int) \<le> 8 \<and> (8::int) \<le> 8 \<and> list_max [0, 100] = 100
   \<and> logarithmic_quantize_activation [0, 100] 8 = Inr (spec_log_codes [0, 100] 8)
   \<and> spec_log_codes [0, 100] 8 ! 1 = 255"
proof -
  have h: "[0, 100 :: real] \<noteq> []" "(0::int) \<le> 8" "(8::int) \<le> 8" by simp_all
  note t = log_codes_within_eight_bits [OF h]
  have lm: "list_max [0, 100 :: real] = 100" by simp
  from t have eq: "logarithmic_quantize_activation [0, 100] 8 = Inr (spec_log_codes [0, 100] 8)"
    by (rule conjunct1)
  from t have "(8::int) = 8 \<and> list_max [0, 100 :: real] = 100 \<longrightarrow>
      (\<forall>i < length [0, 100 :: real]. [0, 100 :: real] ! i = 100 \<longrightarrow> spec_log_codes [0, 100] 8 ! i = 255)"
    by (rule conjunct2 [THEN conjunct2])
  with lm have "\<forall>i < length [0, 100 :: real]. [0, 100 :: real] ! i = 100 \<longrightarrow> spec_log_codes [0, 100] 8 ! i = 255"
    by blast
  then have "1 < length [0, 100 :: real] \<longrightarrow> [0, 100 :: real] ! 1 = 100 \<longrightarrow> spec_log_codes [0, 100] 8 ! 1 = 255"
    by (rule spec)
  then have top: "spec_log_codes [0, 100] 8 ! 1 = 255" by simp
  from h lm eq top show ?thesis by (intro conjI)
qed

end
